theory Spec2Isabelle
  imports Complex_Main "HOL-Library.Stream"
begin

section \<open>OzZoo: a shallow embedding of the day-tick simulation engine\<close>

text \<open>
  The embedding follows \<^verbatim>\<open>ozzoo.py\<close>. Python floats are idealised as \<^typ>\<open>real\<close>.
  Objects that are shared by reference (the animals, which are referenced from the
  enclosures' lists and from the observer's subscription list) live in an explicit
  store, addressed by the number that \<^verbatim>\<open>Animal._id_counter\<close> hands out at
  construction. An exception is a value \<open>Raise e s\<close>, which carries the state as it
  is at the moment of the raise, since Python mutates in place and a raise undoes
  nothing. The \<^verbatim>\<open>print\<close> calls (log echo, observer alerts) write to the console
  only and are not part of the state.
\<close>

subsection \<open>Exceptions and outcomes\<close>

datatype error =
    InsufficientFundsError
  | HabitatCapacityExceededError
  | IncompatibleSpeciesError
  | IndexError

datatype ('r, 's) outcome = Return 'r 's | Raise error 's

subsection \<open>The random source\<close>

text \<open>
  Module \<^verbatim>\<open>random\<close> is a library. It is modelled as a stream of draws from the
  unit interval, one draw per library call, mapped to the requested range the
  standard way. Every function returns the rest of the stream, so the number of draws
  a piece of code makes is visible in its result.
\<close>

type_synonym rng = "real stream"

definition random_random :: "rng \<Rightarrow> real \<times> rng" where
  "random_random g = (shd g, stl g)"

definition uniform :: "real \<Rightarrow> real \<Rightarrow> rng \<Rightarrow> real \<times> rng" where
  "uniform a b g = (a + (b - a) * shd g, stl g)"

definition randbelow :: "nat \<Rightarrow> real \<Rightarrow> nat" where
  "randbelow n r = min (nat \<lfloor>r * real n\<rfloor>) (n - 1)"

definition randint :: "int \<Rightarrow> int \<Rightarrow> rng \<Rightarrow> int \<times> rng" where
  "randint a b g = (a + int (randbelow (nat (b - a + 1)) (shd g)), stl g)"

text \<open>\<^verbatim>\<open>random.choice\<close> raises IndexError on an empty sequence, without drawing.\<close>

definition choice :: "'a list \<Rightarrow> rng \<Rightarrow> ('a, rng) outcome" where
  "choice xs g =
     (if xs = [] then Raise IndexError g
      else Return (xs ! randbelow (length xs) (shd g)) (stl g))"

subsection \<open>Strings\<close>

text \<open>
  \<^verbatim>\<open>str.lower\<close>, \<^verbatim>\<open>str.title\<close> and the substring test \<^verbatim>\<open>in\<close>, on ASCII
  species names.
\<close>

definition upper_letters :: string where
  "upper_letters = ''ABCDEFGHIJKLMNOPQRSTUVWXYZ''"

definition lower_letters :: string where
  "lower_letters = ''abcdefghijklmnopqrstuvwxyz''"

definition is_cased :: "char \<Rightarrow> bool" where
  "is_cased c = (c \<in> set upper_letters \<or> c \<in> set lower_letters)"

definition lower_char :: "char \<Rightarrow> char" where
  "lower_char c = (case map_of (zip upper_letters lower_letters) c of None \<Rightarrow> c | Some d \<Rightarrow> d)"

definition upper_char :: "char \<Rightarrow> char" where
  "upper_char c = (case map_of (zip lower_letters upper_letters) c of None \<Rightarrow> c | Some d \<Rightarrow> d)"

definition lower :: "string \<Rightarrow> string" where
  "lower s = map lower_char s"

fun title_from :: "bool \<Rightarrow> string \<Rightarrow> string" where
  "title_from prev_cased [] = []"
| "title_from prev_cased (c # cs) =
     (if is_cased c
      then (if prev_cased then lower_char c else upper_char c) # title_from True cs
      else c # title_from False cs)"

definition title :: "string \<Rightarrow> string" where
  "title s = title_from False s"

fun starts_with :: "string \<Rightarrow> string \<Rightarrow> bool" where
  "starts_with [] s = True"
| "starts_with (p # ps) [] = False"
| "starts_with (p # ps) (c # cs) = (p = c \<and> starts_with ps cs)"

fun contains :: "string \<Rightarrow> string \<Rightarrow> bool" where
  "contains p [] = (p = [])"
| "contains p (c # cs) = (starts_with p (c # cs) \<or> contains p cs)"

fun digits :: "nat \<Rightarrow> string" where
  "digits n =
     (if n < 10 then [''0123456789'' ! n]
      else digits (n div 10) @ [''0123456789'' ! (n mod 10)])"

declare digits.simps [simp del]

subsection \<open>Food and medicine\<close>

record food =
  food_type :: string
  nutrition_value :: real
  cost :: real

definition Food :: "string \<Rightarrow> real \<Rightarrow> real \<Rightarrow> food" where
  "Food ft nv c = \<lparr>food_type = ft, nutrition_value = nv, cost = c\<rparr>"

subsection \<open>Animals\<close>

text \<open>
  The class hierarchy Animal > Mammal > Marsupial > Koala, Kangaroo and
  Animal > Bird > WedgeTailedEagle is a tag; the overridden methods dispatch on it.
\<close>

datatype kind = Mammal | Marsupial | Koala | Kangaroo | Bird | WedgeTailedEagle

datatype sex = M | F

type_synonym ref = nat

record animal =
  animal_id :: nat
  species :: string
  kind :: kind
  name :: string
  age :: real
  raw_health :: real
  raw_hunger :: real
  raw_happiness :: real
  observers :: "nat list"
  sex :: sex
  pregnant :: bool
  days_pregnant :: int
  social_needs :: real
  max_age :: int

text \<open>\<^verbatim>\<open>isinstance(animal, Mammal)\<close>\<close>

fun isinstance_Mammal :: "kind \<Rightarrow> bool" where
  "isinstance_Mammal Mammal = True"
| "isinstance_Mammal Marsupial = True"
| "isinstance_Mammal Koala = True"
| "isinstance_Mammal Kangaroo = True"
| "isinstance_Mammal Bird = False"
| "isinstance_Mammal WedgeTailedEagle = False"

fun accepted_food_types :: "kind \<Rightarrow> string list" where
  "accepted_food_types Mammal = [''herbivore_food'', ''general_food'']"
| "accepted_food_types Marsupial = [''herbivore_food'', ''general_food'']"
| "accepted_food_types Koala = [''eucalyptus'']"
| "accepted_food_types Kangaroo = [''herbivore_food'', ''general_food'']"
| "accepted_food_types Bird = [''seeds'', ''meaty_food'', ''general_food'']"
| "accepted_food_types WedgeTailedEagle = [''meaty_food'']"

fun get_gestation_period_days :: "kind \<Rightarrow> int" where
  "get_gestation_period_days Mammal = 60"
| "get_gestation_period_days Marsupial = 35"
| "get_gestation_period_days Koala = 34"
| "get_gestation_period_days Kangaroo = 30"
| "get_gestation_period_days Bird = 20"
| "get_gestation_period_days WedgeTailedEagle = 20"

fun kind_max_age :: "kind \<Rightarrow> int" where
  "kind_max_age Mammal = 25"
| "kind_max_age Marsupial = 18"
| "kind_max_age Koala = 18"
| "kind_max_age Kangaroo = 18"
| "kind_max_age Bird = 15"
| "kind_max_age WedgeTailedEagle = 15"

text \<open>The clamp \<^verbatim>\<open>max(0.0, min(100.0, v))\<close> of the property getters and setters.\<close>

definition clamp :: "real \<Rightarrow> real" where
  "clamp v = max 0 (min 100 v)"

definition health :: "animal \<Rightarrow> real" where
  "health a = clamp (raw_health a)"

definition hunger :: "animal \<Rightarrow> real" where
  "hunger a = clamp (raw_hunger a)"

definition happiness :: "animal \<Rightarrow> real" where
  "happiness a = clamp (raw_happiness a)"

definition set_health :: "real \<Rightarrow> animal \<Rightarrow> animal" where
  "set_health v a = a\<lparr>raw_health := clamp v\<rparr>"

definition set_hunger :: "real \<Rightarrow> animal \<Rightarrow> animal" where
  "set_hunger v a = a\<lparr>raw_hunger := clamp v\<rparr>"

definition set_happiness :: "real \<Rightarrow> animal \<Rightarrow> animal" where
  "set_happiness v a = a\<lparr>raw_happiness := clamp v\<rparr>"

text \<open>
  \<^verbatim>\<open>Animal.__init__\<close>, reached through the subclass constructors. The three
  statistics are stored as given, without the clamp. The caller supplies the id it
  took from the counter and the sex it drew.
\<close>

definition Animal_init ::
  "kind \<Rightarrow> string \<Rightarrow> string option \<Rightarrow> real \<Rightarrow> real \<Rightarrow> real \<Rightarrow> real \<Rightarrow> nat \<Rightarrow> sex \<Rightarrow> animal" where
  "Animal_init k sp nm ag he hu ha i sx =
     \<lparr>animal_id = i, species = sp, kind = k,
      name = (case nm of None \<Rightarrow> sp @ ''-'' @ digits i | Some n \<Rightarrow> if n = [] then sp @ ''-'' @ digits i else n),
      age = ag, raw_health = he, raw_hunger = hu, raw_happiness = ha,
      observers = [], sex = sx, pregnant = False, days_pregnant = 0,
      social_needs = 50, max_age = kind_max_age k\<rparr>"

text \<open>
  \<^verbatim>\<open>AnimalFactory.create\<close>: the class and the species name are chosen from the
  lowered keyword; the constructor takes the next id and draws the sex.
\<close>

definition factory_class :: "string \<Rightarrow> kind \<times> string" where
  "factory_class sp =
     (let s = lower sp in
      if contains ''koala'' s then (Koala, ''Koala'')
      else if contains ''kangaroo'' s then (Kangaroo, ''Kangaroo'')
      else if contains ''eagle'' s \<or> contains ''wedge'' s
        then (WedgeTailedEagle, ''Wedge-tailed Eagle'')
      else (Mammal, title s))"

definition create ::
  "string \<Rightarrow> string option \<Rightarrow> real \<Rightarrow> real \<Rightarrow> real \<Rightarrow> real \<Rightarrow> nat \<Rightarrow> rng \<Rightarrow> animal \<times> nat \<times> rng" where
  "create sp nm ag he hu ha idc g =
     (case factory_class sp of (k, sp') \<Rightarrow>
        (Animal_init k sp' nm ag he hu ha idc (if randbelow 2 (shd g) = 0 then M else F),
         idc + 1, stl g))"

definition give_birth :: "animal \<Rightarrow> nat \<Rightarrow> rng \<Rightarrow> animal \<times> nat \<times> rng" where
  "give_birth a idc g =
     (case create (species a) None 0 100 0 100 idc g of (baby, idc', g') \<Rightarrow>
        (set_health 80 (set_happiness 80 baby), idc', g'))"

text \<open>
  \<^verbatim>\<open>daily_update\<close>, statement by statement. The first five statements change the
  statistics; \<open>u\<close> is the hunger increment drawn by \<^verbatim>\<open>random.uniform(5, 15)\<close>.
\<close>

definition grow_older :: "animal \<Rightarrow> animal" where
  "grow_older a = a\<lparr>age := age a + 1 / 365\<rparr>"

definition grow_hungry :: "real \<Rightarrow> animal \<Rightarrow> animal" where
  "grow_hungry u a = set_hunger (hunger a + u) a"

definition hungry_mood :: "animal \<Rightarrow> animal" where
  "hungry_mood a =
     (if hunger a > 50 then set_happiness (happiness a - (hunger a - 50) * (1 / 10)) a else a)"

definition hungry_health :: "animal \<Rightarrow> animal" where
  "hungry_health a =
     (if hunger a > 80 then set_health (health a - (hunger a - 80) * (1 / 2)) a
      else if hunger a < 30 \<and> happiness a > 60 then set_health (health a + 1 / 2) a
      else a)"

definition social_mood :: "animal \<Rightarrow> animal" where
  "social_mood a = (if social_needs a < 30 then set_happiness (happiness a - 1) a else a)"

definition daily_update :: "animal \<Rightarrow> nat \<Rightarrow> rng \<Rightarrow> animal \<times> animal option \<times> nat \<times> rng" where
  "daily_update a0 idc g0 =
     (case uniform 5 15 g0 of (u, g1) \<Rightarrow>
        (let a = social_mood (hungry_health (hungry_mood (grow_hungry u (grow_older a0))))
         in if pregnant a
            then (let a1 = a\<lparr>days_pregnant := days_pregnant a + 1\<rparr>
                  in if days_pregnant a1 \<ge> get_gestation_period_days (kind a1)
                     then (let a2 = a1\<lparr>pregnant := False, days_pregnant := 0\<rparr>
                           in case give_birth a2 idc g1 of (baby, idc', g2) \<Rightarrow>
                                (a2, Some baby, idc', g2))
                     else (a1, None, idc, g1))
            else (a, None, idc, g1)))"

definition feed :: "food \<Rightarrow> animal \<Rightarrow> animal" where
  "feed fd a =
     (if food_type fd \<notin> set (accepted_food_types (kind a))
      then (let a1 = set_hunger (hunger a - 5) a
            in set_happiness (happiness a1 - 5) a1)
      else (let hunger_reduction = nutrition_value fd;
                a1 = set_hunger (hunger a - hunger_reduction) a;
                a2 = set_happiness (happiness a1 + min 10 (hunger_reduction * (3 / 10))) a1
            in set_health (health a2 + min 5 (hunger_reduction * (1 / 10))) a2))"

definition is_alive :: "animal \<Rightarrow> bool" where
  "is_alive a = (health a > 0)"

text \<open>
  \<^verbatim>\<open>attempt_breed_with\<close> works on two animal objects. Two equal references have
  equal sexes, so the branch that mutates is only reached with two distinct objects.
\<close>

definition attempt_breed_with ::
  "animal \<Rightarrow> animal \<Rightarrow> rng \<Rightarrow> (bool, animal \<times> animal \<times> rng) outcome" where
  "attempt_breed_with self partner g =
     (if species self \<noteq> species partner then Raise IncompatibleSpeciesError (self, partner, g)
      else if sex self = sex partner then Return False (self, partner, g)
      else if health self < 60 \<or> health partner < 60 then Return False (self, partner, g)
      else if happiness self < 50 \<or> happiness partner < 50 then Return False (self, partner, g)
      else if pregnant self \<or> pregnant partner then Return False (self, partner, g)
      else (let chance = (happiness self + happiness partner) / 200;
                (r, g') = random_random g
            in if r < chance
               then (if sex self = F
                     then Return True (self\<lparr>pregnant := True, days_pregnant := 0\<rparr>, partner, g')
                     else Return True (self, partner\<lparr>pregnant := True, days_pregnant := 0\<rparr>, g'))
               else Return False (self, partner, g')))"

subsection \<open>The finance manager\<close>

record finance_manager =
  balance :: real
  income_history :: "(real \<times> string) list"
  expense_history :: "(real \<times> string) list"

definition FinanceManager :: "real \<Rightarrow> finance_manager" where
  "FinanceManager starting_balance =
     \<lparr>balance = starting_balance, income_history = [], expense_history = []\<rparr>"

definition add_income :: "real \<Rightarrow> string \<Rightarrow> finance_manager \<Rightarrow> finance_manager" where
  "add_income amount reason fm =
     fm\<lparr>balance := balance fm + amount,
        income_history := income_history fm @ [(amount, reason)]\<rparr>"

definition add_expense ::
  "real \<Rightarrow> string \<Rightarrow> finance_manager \<Rightarrow> (unit, finance_manager) outcome" where
  "add_expense amount reason fm =
     (if amount > balance fm then Raise InsufficientFundsError fm
      else Return () (fm\<lparr>balance := balance fm - amount,
                         expense_history := expense_history fm @ [(amount, reason)]\<rparr>))"

subsection \<open>Enclosures\<close>

text \<open>
  An enclosure holds references to its animals; the animals themselves are in the
  store. The methods that touch the residents take and return the store.
\<close>

type_synonym store = "ref \<Rightarrow> animal"

record enclosure =
  enc_name :: string
  capacity :: int
  habitat_type :: string
  cleanliness :: real
  animals :: "ref list"
  upgrade_level :: int

definition Enclosure :: "string \<Rightarrow> int \<Rightarrow> string \<Rightarrow> enclosure" where
  "Enclosure nm cap ht =
     \<lparr>enc_name = nm, capacity = cap, habitat_type = ht, cleanliness = 100,
      animals = [], upgrade_level = 1\<rparr>"

definition add_animal :: "store \<Rightarrow> ref \<Rightarrow> enclosure \<Rightarrow> (unit, enclosure) outcome" where
  "add_animal st r enc =
     (if int (length (animals enc)) \<ge> capacity enc
        then Raise HabitatCapacityExceededError enc
      else if habitat_type enc = ''aviary'' \<and> isinstance_Mammal (kind (st r))
        then Raise IncompatibleSpeciesError enc
      else Return () (enc\<lparr>animals := animals enc @ [r]\<rparr>))"

definition remove_animal :: "ref \<Rightarrow> enclosure \<Rightarrow> enclosure" where
  "remove_animal r enc =
     (if r \<in> set (animals enc) then enc\<lparr>animals := remove1 r (animals enc)\<rparr> else enc)"

text \<open>The body of the loop of \<^verbatim>\<open>daily_maintenance\<close> over a dirty enclosure.\<close>

definition maintenance_effect :: "animal \<Rightarrow> animal" where
  "maintenance_effect a =
     (let a1 = set_happiness (happiness a - 1) a
      in set_health (health a1 - 3 / 10) a1)"

definition on_store :: "(animal \<Rightarrow> animal) \<Rightarrow> ref \<Rightarrow> store \<Rightarrow> store" where
  "on_store f r st = st(r := f (st r))"

definition daily_maintenance :: "enclosure \<Rightarrow> store \<Rightarrow> enclosure \<times> store" where
  "daily_maintenance enc st =
     (let enc1 = enc\<lparr>cleanliness := cleanliness enc - real (length (animals enc)) * (1 / 2)\<rparr>
      in if cleanliness enc1 < 30
         then (enc1, fold (on_store maintenance_effect) (animals enc1) st)
         else (enc1, st))"

definition clean :: "enclosure \<Rightarrow> enclosure" where
  "clean enc = enc\<lparr>cleanliness := 100\<rparr>"

definition upgrade_effect :: "animal \<Rightarrow> animal" where
  "upgrade_effect a = set_happiness (happiness a + 5) a"

definition upgrade :: "enclosure \<Rightarrow> store \<Rightarrow> enclosure \<times> store" where
  "upgrade enc st =
     (let enc1 = enc\<lparr>upgrade_level := upgrade_level enc + 1, capacity := capacity enc + 2\<rparr>
      in (enc1, fold (on_store upgrade_effect) (animals enc1) st))"

subsection \<open>The health observer\<close>

record health_observer =
  observer_id :: nat
  subscriptions :: "ref list"

definition subscribe :: "ref \<Rightarrow> health_observer \<times> store \<Rightarrow> health_observer \<times> store" where
  "subscribe r os =
     (case os of (ob, st) \<Rightarrow>
        if r \<notin> set (subscriptions ob)
        then (ob\<lparr>subscriptions := subscriptions ob @ [r]\<rparr>,
              on_store (\<lambda>a. a\<lparr>observers := observers a @ [observer_id ob]\<rparr>) r st)
        else (ob, st))"

definition unsubscribe :: "ref \<Rightarrow> health_observer \<times> store \<Rightarrow> health_observer \<times> store" where
  "unsubscribe r os =
     (case os of (ob, st) \<Rightarrow>
        if r \<in> set (subscriptions ob)
        then (let ob1 = ob\<lparr>subscriptions := remove1 r (subscriptions ob)\<rparr>
              in if observer_id ob \<in> set (observers (st r))
                 then (ob1, on_store (\<lambda>a. a\<lparr>observers := remove1 (observer_id ob) (observers a)\<rparr>) r st)
                 else (ob1, st))
        else (ob, st))"

subsection \<open>Visitors\<close>

record visitor =
  budget :: real
  satisfaction :: real

definition Visitor :: "real \<Rightarrow> visitor" where
  "Visitor b = \<lparr>budget = b, satisfaction = 70\<rparr>"

definition visit_enclosure :: "store \<Rightarrow> enclosure \<Rightarrow> visitor \<Rightarrow> rng \<Rightarrow> real \<times> visitor \<times> rng" where
  "visit_enclosure st enc v g =
     (let avg_happiness =
            (if animals enc \<noteq> []
             then sum_list (map (\<lambda>r. happiness (st r)) (animals enc)) / real (length (animals enc))
             else 50);
          v1 = v\<lparr>satisfaction :=
                  satisfaction v + ((avg_happiness - 50) / 20 + (cleanliness enc - 50) / 50)\<rparr>;
          (f, g') = uniform 5 25 g;
          spend = max 0 (min (budget v1) (f * (satisfaction v1 / 100)))
      in (spend, v1\<lparr>budget := budget v1 - spend\<rparr>, g'))"

subsection \<open>The zoo\<close>

text \<open>
  The lines of the event log are kept as the day and the data they are formatted from.
\<close>

datatype message =
    Purchased int string real
  | BoughtAnimal string string real
  | VisitorsRevenue int real
  | NewBirth string string string
  | NewbornLost
  | Died string string
  | HeatwaveStress
  | Donation real
  | EscapeScare string

text \<open>
  The record holds the fields of the \<^verbatim>\<open>Zoo\<close> object and, with them, the state
  outside it that its methods read and write: the object store, the class variable
  \<^verbatim>\<open>Animal._id_counter\<close> and the state of the random module. The enclosure objects
  are held by the list \<open>enclosures\<close> alone and are addressed by their position in it.
\<close>

record zoo =
  zoo_name :: string
  enclosures :: "enclosure list"
  food_inventory :: "string \<rightharpoonup> int"
  medicine_inventory :: "string \<rightharpoonup> int"
  finance :: finance_manager
  observer :: health_observer
  daily_ticket_price :: real
  day :: int
  event_log :: "(int \<times> message) list"
  store :: store
  id_counter :: nat
  rng :: rng

definition state_of :: "('r, 's) outcome \<Rightarrow> 's" where
  "state_of out = (case out of Return _ s \<Rightarrow> s | Raise _ s \<Rightarrow> s)"

definition inv_get :: "(string \<rightharpoonup> int) \<Rightarrow> string \<Rightarrow> int" where
  "inv_get m k = (case m k of None \<Rightarrow> 0 | Some q \<Rightarrow> q)"

definition set_enc :: "nat \<Rightarrow> enclosure \<Rightarrow> zoo \<Rightarrow> zoo" where
  "set_enc i enc z = z\<lparr>enclosures := (enclosures z)[i := enc]\<rparr>"

definition log_event :: "message \<Rightarrow> zoo \<Rightarrow> zoo" where
  "log_event text z = z\<lparr>event_log := event_log z @ [(day z, text)]\<rparr>"

definition show_int :: "int \<Rightarrow> string" where
  "show_int i = (if i < 0 then ''-'' @ digits (nat (- i)) else digits (nat i))"

text \<open>A call of the factory from the zoo: the new object enters the store.\<close>

definition zoo_create :: "string \<Rightarrow> string option \<Rightarrow> real \<Rightarrow> zoo \<Rightarrow> ref \<times> zoo" where
  "zoo_create sp nm ag z =
     (case create sp nm ag 100 0 100 (id_counter z) (rng z) of (a, idc', g') \<Rightarrow>
        (animal_id a, z\<lparr>store := (store z)(animal_id a := a), id_counter := idc', rng := g'\<rparr>))"

definition zoo_subscribe :: "ref \<Rightarrow> zoo \<Rightarrow> zoo" where
  "zoo_subscribe r z =
     (case subscribe r (observer z, store z) of (ob, st) \<Rightarrow> z\<lparr>observer := ob, store := st\<rparr>)"

text \<open>Before any animal is constructed the store holds nothing that is referenced.\<close>

definition empty_store :: store where
  "empty_store = (\<lambda>_. Animal_init Mammal [] None 0 0 0 0 0 M)"

text \<open>
  \<^verbatim>\<open>self.enclosures[i].add_animal(r)\<close> as \<^verbatim>\<open>create_default_setup\<close> calls it, where
  it cannot raise: the enclosures are new and below capacity, and the aviary gets the eagle.
\<close>

definition place :: "nat \<Rightarrow> ref \<Rightarrow> zoo \<Rightarrow> zoo" where
  "place i r z = set_enc i (state_of (add_animal (store z) r (enclosures z ! i))) z"

definition stock :: "zoo \<Rightarrow> zoo" where
  "stock z =
     z\<lparr>food_inventory :=
         [''eucalyptus'' \<mapsto> 20, ''herbivore_food'' \<mapsto> 30, ''seeds'' \<mapsto> 20,
          ''meaty_food'' \<mapsto> 10, ''general_food'' \<mapsto> 25],
       medicine_inventory := [''basic_med'' \<mapsto> 5]\<rparr>"

text \<open>
  \<^verbatim>\<open>Zoo()\<close> with \<^verbatim>\<open>create_default_setup\<close>, in a fresh process: the id counter is 1.
\<close>

definition Zoo :: "rng \<Rightarrow> zoo" where
  "Zoo g =
     (let z0 = \<lparr>zoo_name = ''OzZoo'',
                enclosures = [Enclosure ''Forest Enclosure'' 4 ''forest'',
                              Enclosure ''Grassland Enclosure'' 5 ''grassland'',
                              Enclosure ''Aviary'' 6 ''aviary''],
                food_inventory = Map.empty, medicine_inventory = Map.empty,
                finance = FinanceManager 2000,
                observer = \<lparr>observer_id = 0, subscriptions = []\<rparr>,
                daily_ticket_price = 25, day = 1, event_log = [],
                store = empty_store, id_counter = 1, rng = g\<rparr>;
          (k1, z1) = zoo_create ''Koala'' (Some ''Kiki'') 2 z0;
          (k2, z2) = zoo_create ''Koala'' (Some ''Koko'') 3 z1;
          (kang, z3) = zoo_create ''Kangaroo'' (Some ''Joey'') 4 z2;
          (eagle, z4) = zoo_create ''Wedge-tailed Eagle'' (Some ''Aerie'') 5 z3;
          z5 = place 2 eagle (place 1 kang (place 0 k2 (place 0 k1 z4)));
          z6 = zoo_subscribe eagle (zoo_subscribe kang (zoo_subscribe k2 (zoo_subscribe k1 z5)))
      in stock z6)"

definition buy_food :: "string \<Rightarrow> int \<Rightarrow> real \<Rightarrow> zoo \<Rightarrow> (unit, zoo) outcome" where
  "buy_food ft quantity price_per_unit z =
     (let cost = price_per_unit * real_of_int quantity
      in case add_expense cost (''Bought '' @ show_int quantity @ '' of '' @ ft) (finance z) of
           Raise e _ \<Rightarrow> Raise e z
         | Return _ fm \<Rightarrow>
             Return () (log_event (Purchased quantity ft cost)
               (z\<lparr>finance := fm,
                  food_inventory := (food_inventory z)(ft \<mapsto> inv_get (food_inventory z) ft + quantity)\<rparr>)))"

text \<open>
  The enclosure argument of \<^verbatim>\<open>buy_animal\<close> is \<^verbatim>\<open>zoo.enclosures[i]\<close>; the caller's
  indexing raises IndexError out of range.
\<close>

definition buy_animal :: "string \<Rightarrow> nat \<Rightarrow> real \<Rightarrow> zoo \<Rightarrow> (unit, zoo) outcome" where
  "buy_animal sp i price z =
     (if i \<ge> length (enclosures z) then Raise IndexError z
      else if price > balance (finance z) then Raise InsufficientFundsError z
      else case zoo_create sp None 0 z of (r, z1) \<Rightarrow>
        (case add_animal (store z1) r (enclosures z1 ! i) of
           Raise e _ \<Rightarrow> Raise e z1
         | Return _ enc \<Rightarrow>
             (let z2 = zoo_subscribe r (set_enc i enc z1)
              in case add_expense price
                        (''Bought animal '' @ name (store z2 r) @ '' ('' @ sp @ '')'') (finance z2) of
                   Raise e _ \<Rightarrow> Raise e z2
                 | Return _ fm \<Rightarrow>
                     Return () (log_event (BoughtAnimal (name (store z2 r)) sp price)
                                  (z2\<lparr>finance := fm\<rparr>)))))"

subsection \<open>The day tick\<close>

text \<open>The visitor wave: \<open>n\<close> visitors still to come, \<open>revenue\<close> collected so far.\<close>

fun visitors_loop :: "nat \<Rightarrow> real \<Rightarrow> zoo \<Rightarrow> (real, zoo) outcome" where
  "visitors_loop 0 revenue z = Return revenue z"
| "visitors_loop (Suc n) revenue z =
     (case uniform 10 200 (rng z) of (b, g1) \<Rightarrow>
        (case choice (enclosures z) g1 of
           Raise e g2 \<Rightarrow> Raise e (z\<lparr>rng := g2\<rparr>)
         | Return enc g2 \<Rightarrow>
             (case visit_enclosure (store z) enc (Visitor b) g2 of (spend, v, g3) \<Rightarrow>
                visitors_loop n (revenue + spend) (z\<lparr>rng := g3\<rparr>))))"

text \<open>
  Auto-feeding tries the accepted food types in their order and feeds one ration of the
  first that is in stock.
\<close>

fun auto_feed :: "string list \<Rightarrow> ref \<Rightarrow> zoo \<Rightarrow> bool \<times> zoo" where
  "auto_feed [] r z = (False, z)"
| "auto_feed (ft # fts) r z =
     (if inv_get (food_inventory z) ft > 0
      then (True, z\<lparr>food_inventory := (food_inventory z)(ft \<mapsto> inv_get (food_inventory z) ft - 1),
                    store := on_store (feed (Food ft 20 0)) r (store z)\<rparr>)
      else auto_feed fts r z)"

definition death_check :: "nat \<Rightarrow> ref \<Rightarrow> zoo \<Rightarrow> zoo" where
  "death_check i r z =
     (if \<not> is_alive (store z r)
      then log_event (Died (name (store z r)) (species (store z r)))
             (set_enc i (remove_animal r (enclosures z ! i)) z)
      else z)"

text \<open>The auto-feed attempt, with the hunger penalty when nothing was in stock.\<close>

definition no_food_effect :: "animal \<Rightarrow> animal" where
  "no_food_effect a = set_hunger (hunger a + 5) a"

definition feed_step :: "ref \<Rightarrow> zoo \<Rightarrow> zoo" where
  "feed_step r z0 =
     (case auto_feed (accepted_food_types (kind (store z0 r))) r z0 of (fed, z1) \<Rightarrow>
        (if \<not> fed
         then z1\<lparr>store := on_store no_food_effect r (store z1)\<rparr>
         else z1))"

text \<open>
  The resident's own update; a newborn is a new object in the store.
\<close>

definition update_step :: "ref \<Rightarrow> zoo \<Rightarrow> ref option \<times> zoo" where
  "update_step r z =
     (case daily_update (store z r) (id_counter z) (rng z) of (a', baby, idc', g') \<Rightarrow>
        (let z1 = z\<lparr>store := (store z)(r := a'), id_counter := idc', rng := g'\<rparr>
         in (case baby of
               None \<Rightarrow> (None, z1)
             | Some b \<Rightarrow> (Some (animal_id b), z1\<lparr>store := (store z1)(animal_id b := b)\<rparr>))))"

text \<open>
  Placing a newborn in enclosure \<open>i\<close>: only the capacity error is caught.
\<close>

definition place_baby :: "nat \<Rightarrow> ref \<Rightarrow> zoo \<Rightarrow> (unit, zoo) outcome" where
  "place_baby i b z =
     (case add_animal (store z) b (enclosures z ! i) of
        Return _ enc \<Rightarrow>
          Return () (log_event (NewBirth (species (store z b)) (name (store z b)) (enc_name enc))
                       (zoo_subscribe b (set_enc i enc z)))
      | Raise e _ \<Rightarrow>
          (if e = HabitatCapacityExceededError
           then Return () (log_event NewbornLost z)
           else Raise e z))"

text \<open>The body of the loop over the residents of enclosure \<open>i\<close>, for resident \<open>r\<close>.\<close>

definition process_animal :: "nat \<Rightarrow> ref \<Rightarrow> zoo \<Rightarrow> (unit, zoo) outcome" where
  "process_animal i r z0 =
     (case update_step r (feed_step r z0) of
        (None, z1) \<Rightarrow> Return () (death_check i r z1)
      | (Some b, z1) \<Rightarrow>
          (case place_baby i b z1 of
             Raise e z2 \<Rightarrow> Raise e z2
           | Return _ z2 \<Rightarrow> Return () (death_check i r z2)))"

fun animals_loop :: "nat \<Rightarrow> ref list \<Rightarrow> zoo \<Rightarrow> (unit, zoo) outcome" where
  "animals_loop i [] z = Return () z"
| "animals_loop i (r # rs) z =
     (case process_animal i r z of
        Raise e z' \<Rightarrow> Raise e z'
      | Return _ z' \<Rightarrow> animals_loop i rs z')"

text \<open>
  The body of the loop over the enclosures: maintenance, then the residents, over a
  snapshot of the list taken after maintenance.
\<close>

definition process_enclosure :: "nat \<Rightarrow> zoo \<Rightarrow> (unit, zoo) outcome" where
  "process_enclosure i z =
     (case daily_maintenance (enclosures z ! i) (store z) of (enc, st) \<Rightarrow>
        animals_loop i (animals enc) ((set_enc i enc z)\<lparr>store := st\<rparr>))"

fun enclosures_loop :: "nat list \<Rightarrow> zoo \<Rightarrow> (unit, zoo) outcome" where
  "enclosures_loop [] z = Return () z"
| "enclosures_loop (i # js) z =
     (case process_enclosure i z of
        Raise e z' \<Rightarrow> Raise e z'
      | Return _ z' \<Rightarrow> enclosures_loop js z')"

definition heatwave_effect :: "animal \<Rightarrow> animal" where
  "heatwave_effect a = set_happiness (happiness a - 10) a"

definition escape_effect :: "animal \<Rightarrow> animal" where
  "escape_effect a = set_happiness (happiness a - 20) a"

fun heatwave_loop :: "nat list \<Rightarrow> zoo \<Rightarrow> zoo" where
  "heatwave_loop [] z = z"
| "heatwave_loop (i # js) z =
     (let enc = enclosures z ! i;
          enc1 = enc\<lparr>cleanliness := cleanliness enc - 15\<rparr>
      in heatwave_loop js
           ((set_enc i enc1 z)\<lparr>store := fold (on_store heatwave_effect) (animals enc1) (store z)\<rparr>))"

definition handle_random_events :: "zoo \<Rightarrow> (unit, zoo) outcome" where
  "handle_random_events z =
     (case random_random (rng z) of (r, g1) \<Rightarrow>
      let z1 = z\<lparr>rng := g1\<rparr>
      in if r < 6 / 100 then
           (let z2 = heatwave_loop [0 ..< length (enclosures z1)] z1
            in case add_expense 200 ''Heatwave emergency cooling'' (finance z2) of
                 Raise e _ \<Rightarrow> Raise e z2
               | Return _ fm \<Rightarrow> Return () (log_event HeatwaveStress (z2\<lparr>finance := fm\<rparr>)))
         else if r < 12 / 100 then
           (if balance (finance z1) > 1000
            then (case uniform 100 500 (rng z1) of (donation, g2) \<Rightarrow>
                    Return () (log_event (Donation donation)
                      (z1\<lparr>rng := g2, finance := add_income donation ''Donation'' (finance z1)\<rparr>)))
            else Return () z1)
         else if r < 18 / 100 then
           (case choice (enclosures z1) (rng z1) of
              Raise e g2 \<Rightarrow> Raise e (z1\<lparr>rng := g2\<rparr>)
            | Return enc g2 \<Rightarrow>
                (if animals enc \<noteq> []
                 then (case choice (animals enc) g2 of
                         Raise e g3 \<Rightarrow> Raise e (z1\<lparr>rng := g3\<rparr>)
                       | Return a g3 \<Rightarrow>
                           (let z2 = z1\<lparr>rng := g3, store := on_store escape_effect a (store z1)\<rparr>;
                                z3 = log_event (EscapeScare (name (store z2 a))) z2
                            in case add_expense 50 ''Escape incident repairs'' (finance z3) of
                                 Return _ fm \<Rightarrow> Return () (z3\<lparr>finance := fm\<rparr>)
                               | Raise e _ \<Rightarrow>
                                   (if e = InsufficientFundsError then Return () z3
                                    else Raise e z3)))
                 else Return () (z1\<lparr>rng := g2\<rparr>)))
         else Return () z1)"

definition daily_operations :: "zoo \<Rightarrow> (unit, zoo) outcome" where
  "daily_operations z =
     (case randint 5 20 (rng z) of (visitor_count, g1) \<Rightarrow>
        (case visitors_loop (nat visitor_count) 0 (z\<lparr>rng := g1\<rparr>) of
           Raise e z' \<Rightarrow> Raise e z'
         | Return spent z2 \<Rightarrow>
             (let ticket_income = real_of_int visitor_count * daily_ticket_price z2;
                  revenue = spent + ticket_income;
                  z3 = z2\<lparr>finance := add_income revenue ''Daily visitors & sales'' (finance z2)\<rparr>;
                  z4 = log_event (VisitorsRevenue visitor_count revenue) z3
              in case enclosures_loop [0 ..< length (enclosures z4)] z4 of
                   Raise e z' \<Rightarrow> Raise e z'
                 | Return _ z5 \<Rightarrow>
                     (case handle_random_events z5 of
                        Raise e z' \<Rightarrow> Raise e z'
                      | Return _ z6 \<Rightarrow> Return () (z6\<lparr>day := day z6 + 1\<rparr>)))))"

subsection \<open>The host's actions\<close>

text \<open>
  What the front-end's handlers do to the engine's state once the dialogs have
  returned the player's choice. Each handler catches the error it expects, so the
  state either takes the whole effect or stays as it is.
\<close>

definition clean_enclosure :: "nat \<Rightarrow> zoo \<Rightarrow> zoo" where
  "clean_enclosure i z =
     (let enc = enclosures z ! i;
          cost = 20 * (1 + real (length (animals enc)) / 2)
      in case add_expense cost ''Cleaning enclosure'' (finance z) of
           Return _ fm \<Rightarrow> set_enc i (clean enc) (z\<lparr>finance := fm\<rparr>)
         | Raise e _ \<Rightarrow> z)"

definition upgrade_enclosure :: "nat \<Rightarrow> zoo \<Rightarrow> zoo" where
  "upgrade_enclosure i z =
     (let enc = enclosures z ! i;
          cost = 200 * real_of_int (upgrade_level enc)
      in case add_expense cost ''Enclosure upgrade'' (finance z) of
           Return _ fm \<Rightarrow>
             (case upgrade enc (store z) of (enc', st') \<Rightarrow>
                (set_enc i enc' z)\<lparr>finance := fm, store := st'\<rparr>)
         | Raise e _ \<Rightarrow> z)"

definition feed_selected :: "ref \<Rightarrow> string \<Rightarrow> zoo \<Rightarrow> zoo" where
  "feed_selected r ft z =
     (if food_inventory z ft = None \<or> inv_get (food_inventory z) ft \<le> 0 then z
      else z\<lparr>food_inventory := (food_inventory z)(ft \<mapsto> inv_get (food_inventory z) ft - 1),
             store := on_store (feed (Food ft 25 0)) r (store z)\<rparr>)"

definition medicine_effect :: "animal \<Rightarrow> animal" where
  "medicine_effect a = set_health (health a + 15) a"

definition give_medicine_selected :: "ref \<Rightarrow> string \<Rightarrow> zoo \<Rightarrow> zoo" where
  "give_medicine_selected r med_name z =
     (if inv_get (medicine_inventory z) med_name > 0
      then z\<lparr>medicine_inventory :=
                (medicine_inventory z)(med_name \<mapsto> inv_get (medicine_inventory z) med_name - 1),
             store := on_store medicine_effect r (store z)\<rparr>
      else z)"

definition attempt_breed_pair :: "ref \<Rightarrow> ref \<Rightarrow> zoo \<Rightarrow> zoo" where
  "attempt_breed_pair r1 r2 z =
     (if r1 = r2 then z
      else case attempt_breed_with (store z r1) (store z r2) (rng z) of
             Return _ (a1, a2, g) \<Rightarrow> z\<lparr>store := (store z)(r1 := a1, r2 := a2), rng := g\<rparr>
           | Raise e _ \<Rightarrow> z)"

text \<open>
  The states the program can be in: the zoo as constructed, and whatever a call of the
  engine or a handler leaves behind, whether it returned or raised.
\<close>

inductive reachable :: "zoo \<Rightarrow> bool" where
  start: "reachable (Zoo g)"
| tick: "reachable z \<Longrightarrow> reachable (state_of (daily_operations z))"
| food: "reachable z \<Longrightarrow> reachable (state_of (buy_food ft quantity price z))"
| purchase: "reachable z \<Longrightarrow> reachable (state_of (buy_animal sp i price z))"
| cleaned: "reachable z \<Longrightarrow> i < length (enclosures z) \<Longrightarrow> reachable (clean_enclosure i z)"
| upgraded: "reachable z \<Longrightarrow> i < length (enclosures z) \<Longrightarrow> reachable (upgrade_enclosure i z)"
| fed: "reachable z \<Longrightarrow> i < length (enclosures z) \<Longrightarrow> r \<in> set (animals (enclosures z ! i))
        \<Longrightarrow> reachable (feed_selected r ft z)"
| medicated: "reachable z \<Longrightarrow> i < length (enclosures z) \<Longrightarrow> r \<in> set (animals (enclosures z ! i))
        \<Longrightarrow> reachable (give_medicine_selected r med_name z)"
| bred: "reachable z \<Longrightarrow> i < length (enclosures z) \<Longrightarrow> r1 \<in> set (animals (enclosures z ! i))
        \<Longrightarrow> r2 \<in> set (animals (enclosures z ! i)) \<Longrightarrow> reachable (attempt_breed_pair r1 r2 z)"

text \<open>The ways the program mutates one animal, as steps on that animal.\<close>

datatype mutation =
    ByFeed food
  | ByNoFood
  | ByDailyUpdate nat rng
  | ByBirth
  | ByMedicine
  | ByMaintenance
  | ByUpgrade
  | ByHeatwave
  | ByEscapeScare

fun mutate :: "mutation \<Rightarrow> animal \<Rightarrow> animal" where
  "mutate (ByFeed fd) a = feed fd a"
| "mutate ByNoFood a = no_food_effect a"
| "mutate (ByDailyUpdate idc g) a = fst (daily_update a idc g)"
| "mutate ByBirth a = set_health 80 (set_happiness 80 a)"
| "mutate ByMedicine a = medicine_effect a"
| "mutate ByMaintenance a = maintenance_effect a"
| "mutate ByUpgrade a = upgrade_effect a"
| "mutate ByHeatwave a = heatwave_effect a"
| "mutate ByEscapeScare a = escape_effect a"

text \<open>No enclosure holds an animal that is not alive.\<close>

definition no_dead :: "zoo \<Rightarrow> bool" where
  "no_dead z = list_all (\<lambda>enc. list_all (\<lambda>r. is_alive (store z r)) (animals enc)) (enclosures z)"

subsection \<open>Well-formed states and examples\<close>

definition returned :: "('r, 's) outcome \<Rightarrow> bool" where
  "returned out = (case out of Return _ _ \<Rightarrow> True | Raise _ _ \<Rightarrow> False)"

text \<open>The residents of enclosure \<open>i\<close>.\<close>

definition res :: "zoo \<Rightarrow> nat \<Rightarrow> ref list" where
  "res z i = animals (enclosures z ! i)"

text \<open>
  What construction guarantees of the references: an animal is listed once, in one
  enclosure, and every listed reference was handed out by the id counter.
\<close>

definition wf :: "zoo \<Rightarrow> bool" where
  "wf z \<longleftrightarrow>
     (\<forall>i < length (enclosures z). distinct (res z i) \<and> (\<forall>r \<in> set (res z i). r < id_counter z))
     \<and> (\<forall>i < length (enclosures z). \<forall>j < length (enclosures z).
           i \<noteq> j \<longrightarrow> set (res z i) \<inter> set (res z j) = {})"

text \<open>
  What a part of the tick may do to the references: the enclosure list keeps its length,
  the id counter does not go back, the animals outside \<open>S\<close> that existed before are
  untouched, no existing animal's list of observers changes, and no subscription is dropped.
\<close>

definition evolves :: "ref set \<Rightarrow> zoo \<Rightarrow> zoo \<Rightarrow> bool" where
  "evolves S z z' \<longleftrightarrow>
     length (enclosures z') = length (enclosures z)
     \<and> id_counter z \<le> id_counter z'
     \<and> (\<forall>q. q < id_counter z \<longrightarrow> q \<notin> S \<longrightarrow> store z' q = store z q)
     \<and> (\<forall>q. q < id_counter z \<longrightarrow> observers (store z' q) = observers (store z q))
     \<and> set (subscriptions (observer z)) \<subseteq> set (subscriptions (observer z'))"

text \<open>
  A small zoo for examples: the three default enclosures with one koala, Kiki, in the
  forest enclosure, subscribed to the observer; no food in stock.
\<close>

definition kiki :: "real \<Rightarrow> real \<Rightarrow> real \<Rightarrow> animal" where
  "kiki he hu ha = (Animal_init Koala ''Koala'' (Some ''Kiki'') 2 he hu ha 1 M)\<lparr>observers := [0]\<rparr>"

definition kiki_zoo :: "animal \<Rightarrow> real \<Rightarrow> rng \<Rightarrow> zoo" where
  "kiki_zoo a bal g =
     \<lparr>zoo_name = ''OzZoo'',
      enclosures = [(Enclosure ''Forest Enclosure'' 4 ''forest'')\<lparr>animals := [1]\<rparr>,
                    Enclosure ''Grassland Enclosure'' 5 ''grassland'',
                    Enclosure ''Aviary'' 6 ''aviary''],
      food_inventory = Map.empty, medicine_inventory = Map.empty,
      finance = FinanceManager bal,
      observer = \<lparr>observer_id = 0, subscriptions = [1]\<rparr>,
      daily_ticket_price = 25, day = 1, event_log = [],
      store = empty_store(1 := a), id_counter = 2, rng = g\<rparr>"

section \<open>Properties\<close>

subsection \<open>The clamp\<close>

lemma clamp_range: "0 \<le> clamp v \<and> clamp v \<le> 100"
  by (simp add: clamp_def)

lemma clamp_id: "0 \<le> v \<Longrightarrow> v \<le> 100 \<Longrightarrow> clamp v = v"
  by (simp add: clamp_def)

subsection \<open>Accessors and setters\<close>

lemma health_simps:
  "health (set_health v a) = clamp v"
  "health (set_hunger v a) = health a"
  "health (set_happiness v a) = health a"
  "health (a\<lparr>age := x\<rparr>) = health a"
  "health (a\<lparr>pregnant := p\<rparr>) = health a"
  "health (a\<lparr>days_pregnant := d\<rparr>) = health a"
  "health (a\<lparr>observers := os\<rparr>) = health a"
  by (simp_all add: health_def set_health_def set_hunger_def set_happiness_def clamp_def)

lemma hunger_simps:
  "hunger (set_hunger v a) = clamp v"
  "hunger (set_health v a) = hunger a"
  "hunger (set_happiness v a) = hunger a"
  "hunger (a\<lparr>age := x\<rparr>) = hunger a"
  "hunger (a\<lparr>pregnant := p\<rparr>) = hunger a"
  "hunger (a\<lparr>days_pregnant := d\<rparr>) = hunger a"
  "hunger (a\<lparr>observers := os\<rparr>) = hunger a"
  by (simp_all add: hunger_def set_health_def set_hunger_def set_happiness_def clamp_def)

lemma happiness_simps:
  "happiness (set_happiness v a) = clamp v"
  "happiness (set_health v a) = happiness a"
  "happiness (set_hunger v a) = happiness a"
  "happiness (a\<lparr>age := x\<rparr>) = happiness a"
  "happiness (a\<lparr>pregnant := p\<rparr>) = happiness a"
  "happiness (a\<lparr>days_pregnant := d\<rparr>) = happiness a"
  "happiness (a\<lparr>observers := os\<rparr>) = happiness a"
  by (simp_all add: happiness_def set_health_def set_hunger_def set_happiness_def clamp_def)

subsection \<open>The ledger\<close>

text \<open>
  C2. \<^verbatim>\<open>add_expense\<close> raises InsufficientFunds exactly when the amount exceeds the
  balance. On that failure the ledger is as it was (balance and both histories). Otherwise
  the balance becomes the old balance minus the amount and the pair of amount and reason
  is appended to the expense history.
\<close>

theorem add_expense_guarded:
  "((\<exists>s. add_expense amount reason fm = Raise InsufficientFundsError s) \<longleftrightarrow> amount > balance fm)
   \<and> (amount > balance fm \<longrightarrow> add_expense amount reason fm = Raise InsufficientFundsError fm)
   \<and> (\<not> amount > balance fm \<longrightarrow>
        (\<exists>fm'. add_expense amount reason fm = Return () fm'
           \<and> balance fm' = balance fm - amount
           \<and> expense_history fm' = expense_history fm @ [(amount, reason)]
           \<and> income_history fm' = income_history fm))"
  by (simp add: add_expense_def)

theorem add_expense_guarded_witness:
  "add_expense 150 ''rent'' (FinanceManager 100) = Raise InsufficientFundsError (FinanceManager 100)
   \<and> (\<exists>fm'. add_expense 50 ''hay'' (FinanceManager 100) = Return () fm'
         \<and> balance fm' = 50 \<and> expense_history fm' = [(50, ''hay'')])"
  using add_expense_guarded [of 150 "''rent''" "FinanceManager 100"]
        add_expense_guarded [of 50 "''hay''" "FinanceManager 100"]
  by (auto simp add: FinanceManager_def)

subsection \<open>The animals' statistics\<close>

text \<open>
  C3. Whatever an animal was constructed with, and after any sequence of the mutations
  the program applies to it (feeding, the hunger penalty, the daily update, the birth
  initialisation, medicine, habitat maintenance, an upgrade, a heatwave, an escape scare),
  health, hunger and happiness read through their accessors lie in [0, 100].
\<close>

theorem accessors_in_range:
  "0 \<le> health (fold mutate ms a) \<and> health (fold mutate ms a) \<le> 100
   \<and> 0 \<le> hunger (fold mutate ms a) \<and> hunger (fold mutate ms a) \<le> 100
   \<and> 0 \<le> happiness (fold mutate ms a) \<and> happiness (fold mutate ms a) \<le> 100"
  by (simp add: health_def hunger_def happiness_def clamp_range)

text \<open>
  C6. Feeding a food type outside the accepted list lowers hunger by 5 and happiness by 5,
  each stopping at 0, and leaves health as it was. Feeding an accepted type lowers hunger
  by the nutrition value, raises happiness by min(10, nutrition * 0.3) and health by
  min(5, nutrition * 0.1), each result clamped to [0, 100].
\<close>

theorem feed_effect:
  "(food_type fd \<notin> set (accepted_food_types (kind a)) \<longrightarrow>
      hunger (feed fd a) = max 0 (hunger a - 5)
      \<and> happiness (feed fd a) = max 0 (happiness a - 5)
      \<and> health (feed fd a) = health a)
   \<and> (food_type fd \<in> set (accepted_food_types (kind a)) \<longrightarrow>
      hunger (feed fd a) = clamp (hunger a - nutrition_value fd)
      \<and> happiness (feed fd a) = clamp (happiness a + min 10 (nutrition_value fd * (3 / 10)))
      \<and> health (feed fd a) = clamp (health a + min 5 (nutrition_value fd * (1 / 10))))"
  by (auto simp add: feed_def Let_def set_hunger_def set_happiness_def set_health_def
        health_def hunger_def happiness_def clamp_def)

theorem feed_effect_witness:
  "hunger (feed (Food ''seeds'' 20 0) (Animal_init Koala ''Koala'' None 2 50 3 60 1 M)) = 0
   \<and> happiness (feed (Food ''seeds'' 20 0) (Animal_init Koala ''Koala'' None 2 50 3 60 1 M)) = 55
   \<and> health (feed (Food ''seeds'' 20 0) (Animal_init Koala ''Koala'' None 2 50 3 60 1 M)) = 50
   \<and> hunger (feed (Food ''eucalyptus'' 20 0) (Animal_init Koala ''Koala'' None 2 50 30 60 1 M)) = 10
   \<and> happiness (feed (Food ''eucalyptus'' 20 0) (Animal_init Koala ''Koala'' None 2 50 30 60 1 M)) = 66
   \<and> health (feed (Food ''eucalyptus'' 20 0) (Animal_init Koala ''Koala'' None 2 50 30 60 1 M)) = 52"
  using feed_effect [of "Food ''seeds'' 20 0" "Animal_init Koala ''Koala'' None 2 50 3 60 1 M"]
        feed_effect [of "Food ''eucalyptus'' 20 0" "Animal_init Koala ''Koala'' None 2 50 30 60 1 M"]
  by (simp add: Food_def Animal_init_def health_def hunger_def happiness_def clamp_def)

subsection \<open>The daily update\<close>

lemma stage_health:
  "health (grow_older a) = health a"
  "health (grow_hungry u a) = health a"
  "health (hungry_mood a) = health a"
  "health (social_mood a) = health a"
  by (simp_all add: grow_older_def grow_hungry_def hungry_mood_def social_mood_def health_simps)

lemma stage_hunger:
  "hunger (grow_older a) = hunger a"
  "hunger (grow_hungry u a) = clamp (hunger a + u)"
  "hunger (hungry_mood a) = hunger a"
  by (simp_all add: grow_older_def grow_hungry_def hungry_mood_def hunger_simps)

lemma stage_happiness:
  "happiness (grow_older a) = happiness a"
  "happiness (grow_hungry u a) = happiness a"
  by (simp_all add: grow_older_def grow_hungry_def happiness_simps)

lemma daily_update_fst_health:
  "health (fst (daily_update a idc g))
     = health (hungry_health (hungry_mood (grow_hungry (5 + 10 * shd g) (grow_older a))))"
  by (simp add: daily_update_def uniform_def Let_def case_prod_beta health_simps stage_health)

lemma daily_update_health:
  "health (fst (daily_update a idc g)) =
     (if clamp (hunger a + (5 + 10 * shd g)) > 80
      then clamp (health a - (clamp (hunger a + (5 + 10 * shd g)) - 80) * (1 / 2))
      else if clamp (hunger a + (5 + 10 * shd g)) < 30
              \<and> happiness (hungry_mood (grow_hungry (5 + 10 * shd g) (grow_older a))) > 60
        then clamp (health a + 1 / 2) else health a)"
  by (simp add: daily_update_fst_health hungry_health_def health_simps stage_health stage_hunger)

text \<open>
  C5 as stated fails: the health loss is computed from the hunger that already includes
  this tick's increment. Hunger 90 with the smallest increment 5 is 95, and the loss is
  7.5, not 5.
\<close>

theorem daily_update_not_five_counterexample:
  "hunger (Animal_init Koala ''Koala'' None 2 50 90 100 1 M) = 90
   \<and> health (Animal_init Koala ''Koala'' None 2 50 90 100 1 M) = 50
   \<and> social_needs (Animal_init Koala ''Koala'' None 2 50 90 100 1 M) \<ge> 30
   \<and> health (fst (daily_update (Animal_init Koala ''Koala'' None 2 50 90 100 1 M) 2 (sconst 0)))
       = 50 - 15 / 2
   \<and> health (fst (daily_update (Animal_init Koala ''Koala'' None 2 50 90 100 1 M) 2 (sconst 0)))
       \<noteq> 50 - 5"
  unfolding daily_update_health
  by (simp add: Animal_init_def health_def hunger_def happiness_def clamp_def)

text \<open>
  C5, amended. For an animal with hunger 90 and health 50, one daily update lowers health
  by exactly (h - 80) * 0.5, where h = min(100, 90 + u) is the hunger after this tick's
  increment u = 5 + 10 r of a draw r in [0, 1): a loss between 7.5 and 10.
\<close>

theorem daily_update_health_after_increment:
  "hunger a = 90 \<Longrightarrow> health a = 50 \<Longrightarrow> 0 \<le> shd g \<Longrightarrow> shd g < 1 \<Longrightarrow>
     health (fst (daily_update a idc g))
       = health a - (min 100 (90 + (5 + 10 * shd g)) - 80) * (1 / 2)
     \<and> health a - 10 \<le> health (fst (daily_update a idc g))
     \<and> health (fst (daily_update a idc g)) \<le> health a - 15 / 2"
proof -
  assume hu: "hunger a = 90" and he: "health a = 50" and lo: "0 \<le> shd g" and hi: "shd g < 1"
  define h where "h = clamp (hunger a + (5 + 10 * shd g))"
  have h_eq: "h = min 100 (90 + (5 + 10 * shd g))"
    using lo by (simp add: h_def hu clamp_def min_def max_def)
  have h_lo: "95 \<le> h" and h_hi: "h \<le> 100"
    using lo by (simp_all add: h_eq min_def)
  have "health (fst (daily_update a idc g)) = clamp (50 - (h - 80) * (1 / 2))"
    using h_lo by (simp add: daily_update_health h_def [symmetric] he)
  also have "\<dots> = 50 - (h - 80) * (1 / 2)"
  proof (rule clamp_id)
    show "0 \<le> 50 - (h - 80) * (1 / 2)" using h_hi by (simp add: field_simps)
    show "50 - (h - 80) * (1 / 2) \<le> 100" using h_lo by (simp add: field_simps)
  qed
  finally have eq: "health (fst (daily_update a idc g)) = 50 - (h - 80) * (1 / 2)" .
  have "50 - 10 \<le> 50 - (h - 80) * (1 / 2)" using h_hi by (simp add: field_simps)
  moreover have "50 - (h - 80) * (1 / 2) \<le> 50 - 15 / 2" using h_lo by (simp add: field_simps)
  ultimately show ?thesis
    by (simp only: eq he h_eq [symmetric])
qed

theorem daily_update_health_after_increment_witness:
  "health (fst (daily_update (Animal_init Koala ''Koala'' None 2 50 90 100 1 M) 2 (sconst (1 / 2)))) = 40"
  using daily_update_health_after_increment
          [of "Animal_init Koala ''Koala'' None 2 50 90 100 1 M" "sconst (1 / 2)" 2]
  by (simp add: Animal_init_def health_def hunger_def clamp_def)

subsection \<open>Breeding\<close>

lemma happiness_le_100: "happiness a \<le> 100"
  by (simp add: happiness_def clamp_def)

lemma other_is_female: "sex a \<noteq> sex b \<Longrightarrow> sex a \<noteq> F \<Longrightarrow> sex b = F"
  by (cases "sex a"; cases "sex b") simp_all

lemma breed_raises_iff:
  "(\<exists>s. attempt_breed_with self partner g = Raise IncompatibleSpeciesError s)
      \<longleftrightarrow> species self \<noteq> species partner"
  by (simp add: attempt_breed_with_def random_random_def Let_def)

lemma breed_refused:
  "species self = species partner
     \<and> (sex self = sex partner \<or> health self < 60 \<or> health partner < 60
         \<or> happiness self < 50 \<or> happiness partner < 50
         \<or> pregnant self \<or> pregnant partner)
   \<Longrightarrow> attempt_breed_with self partner g = Return False (self, partner, g)"
  by (auto simp add: attempt_breed_with_def)

lemma breed_self_female:
  "species self = species partner \<Longrightarrow> sex self \<noteq> sex partner \<Longrightarrow> \<not> health self < 60 \<Longrightarrow> \<not> health partner < 60
   \<Longrightarrow> \<not> happiness self < 50 \<Longrightarrow> \<not> happiness partner < 50 \<Longrightarrow> \<not> pregnant self \<Longrightarrow> \<not> pregnant partner
   \<Longrightarrow> shd g < (happiness self + happiness partner) / 200 \<Longrightarrow> sex self = F
   \<Longrightarrow> attempt_breed_with self partner g
         = Return True (self\<lparr>pregnant := True, days_pregnant := 0\<rparr>, partner, stl g)"
  by (simp add: attempt_breed_with_def random_random_def)

lemma breed_partner_female:
  "species self = species partner \<Longrightarrow> sex self \<noteq> sex partner \<Longrightarrow> \<not> health self < 60 \<Longrightarrow> \<not> health partner < 60
   \<Longrightarrow> \<not> happiness self < 50 \<Longrightarrow> \<not> happiness partner < 50 \<Longrightarrow> \<not> pregnant self \<Longrightarrow> \<not> pregnant partner
   \<Longrightarrow> shd g < (happiness self + happiness partner) / 200 \<Longrightarrow> sex self \<noteq> F
   \<Longrightarrow> attempt_breed_with self partner g
         = Return True (self, partner\<lparr>pregnant := True, days_pregnant := 0\<rparr>, stl g)"
  by (simp add: attempt_breed_with_def random_random_def)

lemma breed_unlucky:
  "species self = species partner \<Longrightarrow> sex self \<noteq> sex partner \<Longrightarrow> \<not> health self < 60 \<Longrightarrow> \<not> health partner < 60
   \<Longrightarrow> \<not> happiness self < 50 \<Longrightarrow> \<not> happiness partner < 50 \<Longrightarrow> \<not> pregnant self \<Longrightarrow> \<not> pregnant partner
   \<Longrightarrow> \<not> shd g < (happiness self + happiness partner) / 200
   \<Longrightarrow> attempt_breed_with self partner g = Return False (self, partner, stl g)"
  by (simp add: attempt_breed_with_def random_random_def)

text \<open>
  C4. \<^verbatim>\<open>attempt_breed_with\<close> raises IncompatibleSpecies exactly when the species
  differ, with nothing changed and nothing drawn. With equal species it returns False,
  again with nothing changed and nothing drawn, if the sexes are equal, a health is below
  60, a happiness is below 50 or one of the two is pregnant. Otherwise it takes exactly
  one draw r from the random source and succeeds exactly when r is below
  (happiness of self + happiness of partner) / 200, a threshold between 1/2 and 1, which
  is therefore the probability of success for a uniform draw from [0, 1). On success the
  female of the two is marked pregnant with days_pregnant 0, the other animal is
  unchanged, and the result is True; on failure nothing changes and the result is False.
\<close>

theorem attempt_breed_with_cases:
  "((\<exists>s. attempt_breed_with self partner g = Raise IncompatibleSpeciesError s)
      \<longleftrightarrow> species self \<noteq> species partner)
   \<and> (species self \<noteq> species partner \<longrightarrow>
        attempt_breed_with self partner g = Raise IncompatibleSpeciesError (self, partner, g))
   \<and> (species self = species partner
        \<and> (sex self = sex partner \<or> health self < 60 \<or> health partner < 60
            \<or> happiness self < 50 \<or> happiness partner < 50
            \<or> pregnant self \<or> pregnant partner) \<longrightarrow>
        attempt_breed_with self partner g = Return False (self, partner, g))
   \<and> (species self = species partner
        \<and> \<not> (sex self = sex partner \<or> health self < 60 \<or> health partner < 60
            \<or> happiness self < 50 \<or> happiness partner < 50
            \<or> pregnant self \<or> pregnant partner) \<longrightarrow>
        1 / 2 \<le> (happiness self + happiness partner) / 200
        \<and> (happiness self + happiness partner) / 200 \<le> 1
        \<and> (shd g < (happiness self + happiness partner) / 200 \<and> sex self = F \<longrightarrow>
             attempt_breed_with self partner g
               = Return True (self\<lparr>pregnant := True, days_pregnant := 0\<rparr>, partner, stl g))
        \<and> (shd g < (happiness self + happiness partner) / 200 \<and> sex self \<noteq> F \<longrightarrow>
             sex partner = F
             \<and> attempt_breed_with self partner g
               = Return True (self, partner\<lparr>pregnant := True, days_pregnant := 0\<rparr>, stl g))
        \<and> (\<not> shd g < (happiness self + happiness partner) / 200 \<longrightarrow>
             attempt_breed_with self partner g = Return False (self, partner, stl g)))"
proof (intro conjI impI; (elim conjE)?)
  show "(\<exists>s. attempt_breed_with self partner g = Raise IncompatibleSpeciesError s)
      \<longleftrightarrow> species self \<noteq> species partner"
    by (rule breed_raises_iff)
next
  assume "species self \<noteq> species partner"
  then show "attempt_breed_with self partner g = Raise IncompatibleSpeciesError (self, partner, g)"
    by (simp add: attempt_breed_with_def)
next
  assume "species self = species partner"
    and "sex self = sex partner \<or> health self < 60 \<or> health partner < 60
            \<or> happiness self < 50 \<or> happiness partner < 50
            \<or> pregnant self \<or> pregnant partner"
  then show "attempt_breed_with self partner g = Return False (self, partner, g)"
    by (intro breed_refused conjI)
next
  assume "\<not> (sex self = sex partner \<or> health self < 60 \<or> health partner < 60
            \<or> happiness self < 50 \<or> happiness partner < 50
            \<or> pregnant self \<or> pregnant partner)"
  then show "1 / 2 \<le> (happiness self + happiness partner) / 200" by simp
next
  show "(happiness self + happiness partner) / 200 \<le> 1"
    using happiness_le_100 [of self] happiness_le_100 [of partner] by simp
next
  assume "species self = species partner"
    and "\<not> (sex self = sex partner \<or> health self < 60 \<or> health partner < 60
            \<or> happiness self < 50 \<or> happiness partner < 50
            \<or> pregnant self \<or> pregnant partner)"
    and "shd g < (happiness self + happiness partner) / 200" and "sex self = F"
  then show "attempt_breed_with self partner g
               = Return True (self\<lparr>pregnant := True, days_pregnant := 0\<rparr>, partner, stl g)"
    by (intro breed_self_female) simp_all
next
  assume "\<not> (sex self = sex partner \<or> health self < 60 \<or> health partner < 60
            \<or> happiness self < 50 \<or> happiness partner < 50
            \<or> pregnant self \<or> pregnant partner)"
    and "sex self \<noteq> F"
  then show "sex partner = F" by (intro other_is_female [of self]) simp_all
next
  assume "species self = species partner"
    and "\<not> (sex self = sex partner \<or> health self < 60 \<or> health partner < 60
            \<or> happiness self < 50 \<or> happiness partner < 50
            \<or> pregnant self \<or> pregnant partner)"
    and "shd g < (happiness self + happiness partner) / 200" and "sex self \<noteq> F"
  then show "attempt_breed_with self partner g
               = Return True (self, partner\<lparr>pregnant := True, days_pregnant := 0\<rparr>, stl g)"
    by (intro breed_partner_female) simp_all
next
  assume "species self = species partner"
    and "\<not> (sex self = sex partner \<or> health self < 60 \<or> health partner < 60
            \<or> happiness self < 50 \<or> happiness partner < 50
            \<or> pregnant self \<or> pregnant partner)"
    and "\<not> shd g < (happiness self + happiness partner) / 200"
  then show "attempt_breed_with self partner g = Return False (self, partner, stl g)"
    by (intro breed_unlucky) simp_all
qed

theorem attempt_breed_with_cases_witness:
  "attempt_breed_with (Animal_init Koala ''Koala'' None 2 100 0 100 1 M)
       (Animal_init Kangaroo ''Kangaroo'' None 2 100 0 100 2 F) (sconst (1 / 4))
     = Raise IncompatibleSpeciesError
         (Animal_init Koala ''Koala'' None 2 100 0 100 1 M,
          Animal_init Kangaroo ''Kangaroo'' None 2 100 0 100 2 F, sconst (1 / 4))
   \<and> attempt_breed_with (Animal_init Koala ''Koala'' None 2 100 0 100 1 M)
       (Animal_init Koala ''Koala'' None 2 100 0 100 2 M) (sconst (1 / 4))
     = Return False
         (Animal_init Koala ''Koala'' None 2 100 0 100 1 M,
          Animal_init Koala ''Koala'' None 2 100 0 100 2 M, sconst (1 / 4))
   \<and> attempt_breed_with (Animal_init Koala ''Koala'' None 2 100 0 60 1 F)
       (Animal_init Koala ''Koala'' None 2 100 0 60 2 M) (sconst (1 / 4))
     = Return True
         ((Animal_init Koala ''Koala'' None 2 100 0 60 1 F)\<lparr>pregnant := True, days_pregnant := 0\<rparr>,
          Animal_init Koala ''Koala'' None 2 100 0 60 2 M, sconst (1 / 4))
   \<and> attempt_breed_with (Animal_init Koala ''Koala'' None 2 100 0 60 1 M)
       (Animal_init Koala ''Koala'' None 2 100 0 60 2 F) (sconst (1 / 4))
     = Return True
         (Animal_init Koala ''Koala'' None 2 100 0 60 1 M,
          (Animal_init Koala ''Koala'' None 2 100 0 60 2 F)\<lparr>pregnant := True, days_pregnant := 0\<rparr>,
          sconst (1 / 4))
   \<and> attempt_breed_with (Animal_init Koala ''Koala'' None 2 100 0 60 1 M)
       (Animal_init Koala ''Koala'' None 2 100 0 60 2 F) (sconst (3 / 4))
     = Return False
         (Animal_init Koala ''Koala'' None 2 100 0 60 1 M,
          Animal_init Koala ''Koala'' None 2 100 0 60 2 F, sconst (3 / 4))"
  using attempt_breed_with_cases [of "Animal_init Koala ''Koala'' None 2 100 0 100 1 M"
          "Animal_init Kangaroo ''Kangaroo'' None 2 100 0 100 2 F" "sconst (1 / 4)"]
        attempt_breed_with_cases [of "Animal_init Koala ''Koala'' None 2 100 0 100 1 M"
          "Animal_init Koala ''Koala'' None 2 100 0 100 2 M" "sconst (1 / 4)"]
        attempt_breed_with_cases [of "Animal_init Koala ''Koala'' None 2 100 0 60 1 F"
          "Animal_init Koala ''Koala'' None 2 100 0 60 2 M" "sconst (1 / 4)"]
        attempt_breed_with_cases [of "Animal_init Koala ''Koala'' None 2 100 0 60 1 M"
          "Animal_init Koala ''Koala'' None 2 100 0 60 2 F" "sconst (1 / 4)"]
        attempt_breed_with_cases [of "Animal_init Koala ''Koala'' None 2 100 0 60 1 M"
          "Animal_init Koala ''Koala'' None 2 100 0 60 2 F" "sconst (3 / 4)"]
  by (simp add: Animal_init_def health_def happiness_def clamp_def)

subsection \<open>Enclosures\<close>

text \<open>
  C7. \<^verbatim>\<open>add_animal\<close> checks in this order. An enclosure that holds as many residents
  as its capacity, or more, raises HabitatCapacityExceeded and keeps its list. Below
  capacity, an aviary raises IncompatibleSpecies for an instance of Mammal and keeps its
  list. In every other case the animal is appended to the list.
\<close>

theorem add_animal_cases:
  "(int (length (animals enc)) \<ge> capacity enc \<longrightarrow>
      add_animal st r enc = Raise HabitatCapacityExceededError enc)
   \<and> (int (length (animals enc)) < capacity enc \<and> habitat_type enc = ''aviary''
        \<and> isinstance_Mammal (kind (st r)) \<longrightarrow>
      add_animal st r enc = Raise IncompatibleSpeciesError enc)
   \<and> (int (length (animals enc)) < capacity enc
        \<and> \<not> (habitat_type enc = ''aviary'' \<and> isinstance_Mammal (kind (st r))) \<longrightarrow>
      add_animal st r enc = Return () (enc\<lparr>animals := animals enc @ [r]\<rparr>))"
  by (simp add: add_animal_def)

theorem add_animal_cases_witness:
  "add_animal (empty_store(1 := Animal_init Kangaroo ''Kangaroo'' None 0 100 0 100 1 M,
                           2 := Animal_init Koala ''Koala'' None 0 100 0 100 2 F))
      2 ((Enclosure ''Grassland'' 1 ''grassland'')\<lparr>animals := [1]\<rparr>)
    = Raise HabitatCapacityExceededError ((Enclosure ''Grassland'' 1 ''grassland'')\<lparr>animals := [1]\<rparr>)
   \<and> add_animal (empty_store(1 := Animal_init Kangaroo ''Kangaroo'' None 0 100 0 100 1 M))
      1 (Enclosure ''Aviary'' 6 ''aviary'')
    = Raise IncompatibleSpeciesError (Enclosure ''Aviary'' 6 ''aviary'')
   \<and> add_animal (empty_store(1 := Animal_init Kangaroo ''Kangaroo'' None 0 100 0 100 1 M))
      1 (Enclosure ''Grassland'' 1 ''grassland'')
    = Return () ((Enclosure ''Grassland'' 1 ''grassland'')\<lparr>animals := [1]\<rparr>)"
  using add_animal_cases [of "(Enclosure ''Grassland'' 1 ''grassland'')\<lparr>animals := [1]\<rparr>"
          "empty_store(1 := Animal_init Kangaroo ''Kangaroo'' None 0 100 0 100 1 M,
                       2 := Animal_init Koala ''Koala'' None 0 100 0 100 2 F)" 2]
        add_animal_cases [of "Enclosure ''Aviary'' 6 ''aviary''"
          "empty_store(1 := Animal_init Kangaroo ''Kangaroo'' None 0 100 0 100 1 M)" 1]
        add_animal_cases [of "Enclosure ''Grassland'' 1 ''grassland''"
          "empty_store(1 := Animal_init Kangaroo ''Kangaroo'' None 0 100 0 100 1 M)" 1]
  by (simp add: Enclosure_def Animal_init_def)

end
